theory Spec2Isabelle
  imports Main "HOL-Library.Sublist"
begin

section \<open>The safelock client of solidlibs (os/lock.py)\<close>

text \<open>
  The client asks a lock server, over one TCP connection per request, to grant or release
  a named lock. \<^verbatim>\<open>lock\<close> and \<^verbatim>\<open>unlock\<close> poll the server in a loop,
  \<^verbatim>\<open>try_to_lock\<close> and \<^verbatim>\<open>try_to_unlock\<close> make one request, and
  \<^verbatim>\<open>locked\<close> is the context manager around a block of work.

  What the functions read from outside (the socket, the clock, the process id, the
  evaluation of the server's answer) is given to the model as data: one
  \<open>attempt\<close> per pass of a loop. What they write (the log) is a list that every
  function takes and returns. An exception is a value of \<open>exn\<close>, and a function
  that can raise returns \<open>exn + 'a\<close>.
\<close>

subsection \<open>Python values\<close>

text \<open>
  The values a response dictionary holds. \<^verbatim>\<open>eval\<close> can build any object; the
  model takes the scalar literals, which is what the server's \<^verbatim>\<open>repr\<close> of a
  response holds.
\<close>

datatype pyval = PyNone | PyBool bool | PyInt int | PyStr string

text \<open>Truth value testing, as \<^verbatim>\<open>if x\<close> and \<^verbatim>\<open>x and y\<close> do it.\<close>

fun truthy :: "pyval \<Rightarrow> bool" where
  "truthy PyNone = False"
| "truthy (PyBool b) = b"
| "truthy (PyInt i) = (i \<noteq> 0)"
| "truthy (PyStr s) = (s \<noteq> [])"

text \<open>Python's \<^verbatim>\<open>==\<close>: a bool is the int 0 or 1, and values of unlike types differ.\<close>

fun py_eq :: "pyval \<Rightarrow> pyval \<Rightarrow> bool" where
  "py_eq PyNone PyNone = True"
| "py_eq (PyStr a) (PyStr b) = (a = b)"
| "py_eq (PyBool a) (PyBool b) = (a = b)"
| "py_eq (PyInt a) (PyInt b) = (a = b)"
| "py_eq (PyBool a) (PyInt b) = ((if a then 1 else 0) = b)"
| "py_eq (PyInt a) (PyBool b) = (a = (if b then 1 else 0))"
| "py_eq _ _ = False"

fun digits :: "nat \<Rightarrow> string" where
  "digits n =
     (if n < 10 then [''0123456789'' ! n]
      else digits (n div 10) @ [''0123456789'' ! (n mod 10)])"

declare digits.simps [simp del]

text \<open>\<^verbatim>\<open>str(x)\<close>, which \<^verbatim>\<open>str.format\<close> applies to its arguments.\<close>

fun py_str :: "pyval \<Rightarrow> string" where
  "py_str PyNone = ''None''"
| "py_str (PyBool b) = (if b then ''True'' else ''False'')"
| "py_str (PyInt i) = (if i < 0 then ''-'' @ digits (nat (- i)) else digits (nat i))"
| "py_str (PyStr s) = s"

text \<open>\<^verbatim>\<open>sub in s\<close> on strings.\<close>

fun str_contains :: "string \<Rightarrow> string \<Rightarrow> bool" where
  "str_contains sub [] = (sub = [])"
| "str_contains sub (c # cs) = (prefix sub (c # cs) \<or> str_contains sub cs)"

subsection \<open>Exceptions, results and the log\<close>

text \<open>What the socket calls raise: subclasses of \<^verbatim>\<open>OSError\<close>.\<close>

datatype oserror =
    ConnectionRefusedError
  | BrokenPipeError string
  | TimeoutError string
  | OtherOSError string

datatype exn =
    LockTimeout string
  | LockFailed string
  | OSError oserror
  | KeyError string
  | TypeError
  | NameError string
  | ValueError string
  | OverflowError
  | PyError string

type_synonym 'a result = "exn + 'a"

abbreviation Raise :: "exn \<Rightarrow> 'a result" where
  "Raise \<equiv> Inl"

abbreviation Return :: "'a \<Rightarrow> 'a result" where
  "Return \<equiv> Inr"

text \<open>
  One line of the log: \<^verbatim>\<open>log(msg)\<close>, \<^verbatim>\<open>log.warning(msg)\<close>,
  \<^verbatim>\<open>log.error(msg)\<close>, \<^verbatim>\<open>log(format_exc())\<close> and
  \<^verbatim>\<open>log.exception()\<close>, the last two with the exception being handled.
\<close>

datatype log_entry =
    LogInfo string
  | LogWarning string
  | LogError string
  | LogTraceback exn
  | LogException exn

type_synonym log = "log_entry list"

subsection \<open>The outside world of one request\<close>

text \<open>
  The object \<^verbatim>\<open>eval(data.decode())\<close> returns: a dictionary with string keys, or
  anything that cannot be subscripted with a string (a number, a list, \<^verbatim>\<open>None\<close>).
\<close>

datatype response = Dict "string \<rightharpoonup> pyval" | NotADict

text \<open>\<^verbatim>\<open>eval(data.decode())\<close> raises (the response cannot be parsed) or returns an object.\<close>

datatype evaluated = EvalRaises exn | EvalValue response

text \<open>
  One pass of a polling loop: what \<^verbatim>\<open>sock.connect\<close> and \<^verbatim>\<open>sock.sendall\<close>
  raise (\<open>None\<close>: nothing), what \<^verbatim>\<open>sock.recv\<close> raises or how the bytes it returns
  evaluate, and what \<^verbatim>\<open>now()\<close> returns at the deadline check of this pass. A
  datetime is a number of microseconds since 0001-01-01 00:00:00.
\<close>

record attempt =
  connect :: "oserror option"
  sendall :: "oserror option"
  recv :: "oserror + evaluated"
  clock :: int

text \<open>
  One call of \<^verbatim>\<open>lock\<close> or \<^verbatim>\<open>unlock\<close>: the process id, \<^verbatim>\<open>now()\<close> when the
  deadline is computed, and the passes of the loop by \<^verbatim>\<open>loop_count\<close>.
\<close>

record env =
  getpid :: int
  now0 :: int
  attempts :: "nat \<Rightarrow> attempt"

subsection \<open>\<^verbatim>\<open>connect_to_server\<close>\<close>

definition no_server_msg :: string where
  "no_server_msg =
     ''Requires safelock package available on PyPI. No lock server at localhost:8674''"

definition not_required_msg :: string where
  "not_required_msg = ''No lock server at localhost:8674, but server_required=False''"

definition connect_to_server :: "bool \<Rightarrow> attempt \<Rightarrow> log \<Rightarrow> bool result \<times> log" where
  "connect_to_server server_required a lg =
     (case connect a of
        None \<Rightarrow> (Return True, lg)
      | Some e \<Rightarrow>
          if e = ConnectionRefusedError then
            if server_required
            then (Raise (LockFailed no_server_msg), lg @ [LogError no_server_msg])
            else (Return False, lg @ [LogWarning not_required_msg])
          else (Raise (OSError e), lg))"

subsection \<open>\<^verbatim>\<open>try_to_lock\<close>\<close>

text \<open>\<^verbatim>\<open>response[key]\<close>.\<close>

definition getitem :: "response \<Rightarrow> string \<Rightarrow> pyval result" where
  "getitem r k =
     (case r of
        NotADict \<Rightarrow> Raise TypeError
      | Dict d \<Rightarrow> (case d k of None \<Rightarrow> Raise (KeyError k) | Some v \<Rightarrow> Return v))"

text \<open>
  The truth value of
  \<^verbatim>\<open>response[OK_KEY] and response[ACTION_KEY] == LOCK_ACTION and response[LOCKNAME_KEY] == lockname\<close>,
  evaluated left to right: a key is read only if what stands before it is true.
\<close>

definition lock_granted :: "response \<Rightarrow> string \<Rightarrow> bool result" where
  "lock_granted r lockname =
     (case getitem r ''ok'' of
        Inl e \<Rightarrow> Raise e
      | Inr ok \<Rightarrow>
          if \<not> truthy ok then Return False
          else (case getitem r ''action'' of
                  Inl e \<Rightarrow> Raise e
                | Inr act \<Rightarrow>
                    if \<not> py_eq act (PyStr ''lock'') then Return False
                    else (case getitem r ''lockname'' of
                            Inl e \<Rightarrow> Raise e
                          | Inr ln \<Rightarrow> Return (py_eq ln (PyStr lockname)))))"

text \<open>
  \<^verbatim>\<open>REJECTED_LOCK_MESSAGE.format(lockname, why)\<close> and
  \<^verbatim>\<open>REJECTED_UNLOCK_MESSAGE.format(lockname, why)\<close>, where \<open>why\<close> is the response's
  message if it has one and \<^verbatim>\<open>WHY_UNKNOWN\<close> otherwise.
\<close>

definition why :: "response \<Rightarrow> string" where
  "why r =
     (case r of
        NotADict \<Rightarrow> ''safelock did not say why''
      | Dict d \<Rightarrow>
          (case d ''message'' of
             None \<Rightarrow> ''safelock did not say why''
           | Some v \<Rightarrow> py_str v))"

definition rejected_lock_message :: "string \<Rightarrow> response \<Rightarrow> string" where
  "rejected_lock_message lockname r =
     ''safelock rejected '' @ [CHR 0x22] @ lockname @ [CHR 0x22] @ '' lock request: '' @ why r"

definition rejected_unlock_message :: "string \<Rightarrow> response \<Rightarrow> string" where
  "rejected_unlock_message lockname r =
     ''safelock rejected '' @ [CHR 0x22] @ lockname @ [CHR 0x22] @ '' unlock request: '' @ why r"

text \<open>What \<^verbatim>\<open>try_to_lock\<close> does with the evaluated response.\<close>

definition lock_response :: "string \<Rightarrow> response \<Rightarrow> log \<Rightarrow> (bool \<times> pyval) result \<times> log" where
  "lock_response lockname r lg =
     (case lock_granted r lockname of
        Inl e \<Rightarrow> (Raise e, lg)
      | Inr is_locked \<Rightarrow>
          if is_locked then
            (case getitem r ''nonce'' of
               Inl e \<Rightarrow> (Raise e, lg)
             | Inr nonce \<Rightarrow> (Return (True, nonce), lg))
          else (Raise (LockFailed (rejected_lock_message lockname r)), lg))"

text \<open>
  One request. The result is \<^verbatim>\<open>(is_locked, nonce)\<close>; without a connection the
  function returns its initial \<^verbatim>\<open>(False, None)\<close>.
\<close>

definition try_to_lock ::
  "string \<Rightarrow> int \<Rightarrow> bool \<Rightarrow> attempt \<Rightarrow> log \<Rightarrow> (bool \<times> pyval) result \<times> log" where
  "try_to_lock lockname pid server_required a lg =
     (case connect_to_server server_required a lg of
        (Inl e, lg1) \<Rightarrow> (Raise e, lg1)
      | (Inr connected, lg1) \<Rightarrow>
          if \<not> connected then (Return (False, PyNone), lg1)
          else (case sendall a of
                  Some e \<Rightarrow>
                    (case e of
                       BrokenPipeError m \<Rightarrow>
                         (Raise (LockFailed ''probably safelock server down''),
                          lg1 @ [LogWarning m])
                     | _ \<Rightarrow> (Raise (OSError e), lg1))
                | None \<Rightarrow>
                    (case recv a of
                       Inl e \<Rightarrow> (Raise (OSError e), lg1)
                     | Inr (EvalRaises e) \<Rightarrow> (Return (False, PyNone), lg1 @ [LogTraceback e])
                     | Inr (EvalValue r) \<Rightarrow> lock_response lockname r lg1)))"

subsection \<open>\<^verbatim>\<open>get_deadline\<close>\<close>

text \<open>
  The timeout argument: \<^verbatim>\<open>None\<close>, a \<^verbatim>\<open>timedelta\<close> (in microseconds), a number
  of seconds (an int, or a float given by the microseconds \<^verbatim>\<open>timedelta(seconds=...)\<close>
  rounds it to), or a value of another type, given by the text of its type.
\<close>

datatype timeout =
    NoTimeout
  | Timedelta int
  | Seconds int
  | FloatSeconds int
  | BadTimeout string

text \<open>The last datetime, 9999-12-31 23:59:59.999999, in microseconds.\<close>

definition datetime_max :: int where
  "datetime_max = 3652059 * 86400 * 1000000 - 1"

text \<open>\<^verbatim>\<open>now() + delta\<close>: \<^verbatim>\<open>OverflowError\<close> outside the range of datetimes.\<close>

definition datetime_add :: "int \<Rightarrow> int \<Rightarrow> int result" where
  "datetime_add t delta =
     (if 0 \<le> t + delta \<and> t + delta \<le> datetime_max then Return (t + delta)
      else Raise OverflowError)"

definition get_deadline :: "timeout \<Rightarrow> int \<Rightarrow> int option result" where
  "get_deadline timeout now =
     (case timeout of
        NoTimeout \<Rightarrow> Return None
      | Timedelta us \<Rightarrow> map_sum id Some (datetime_add now us)
      | Seconds s \<Rightarrow> map_sum id Some (datetime_add now (s * 1000000))
      | FloatSeconds us \<Rightarrow> map_sum id Some (datetime_add now us)
      | BadTimeout ty \<Rightarrow>
          Raise (ValueError
            (''timeout must be one of (seconds, timedelta, None), not '' @ ty)))"

subsection \<open>\<^verbatim>\<open>lock\<close>\<close>

text \<open>
  One pass of a \<^verbatim>\<open>while\<close> loop either leaves the function (\<open>Done\<close>, returning or
  raising) or goes round again with a new \<^verbatim>\<open>last_warning\<close>.
\<close>

datatype 'a step = Done "'a result" | Again "string option"

definition lock_timed_out :: "string \<Rightarrow> string" where
  "lock_timed_out lockname = ''lock timed out: '' @ lockname"

text \<open>
  The end of a pass that did not lock:
  \<^verbatim>\<open>if deadline and now() > deadline: ... raise LockTimeout(warning_msg)\<close>, then
  \<^verbatim>\<open>sleep(0.1)\<close>.
\<close>

definition lock_not_locked ::
  "string \<Rightarrow> int option \<Rightarrow> attempt \<Rightarrow> string option \<Rightarrow> log \<Rightarrow> 'a step \<times> log" where
  "lock_not_locked lockname deadline a last_warning lg =
     (case deadline of
        None \<Rightarrow> (Again last_warning, lg)
      | Some d \<Rightarrow>
          if clock a > d
          then (Done (Raise (LockTimeout (lock_timed_out lockname))),
                lg @ [LogWarning (lock_timed_out lockname)])
          else (Again last_warning, lg))"

text \<open>
  The \<^verbatim>\<open>except\<close> clauses of the loop in \<^verbatim>\<open>lock\<close>, in the source's order:
  \<^verbatim>\<open>TimeoutError\<close> is logged, \<^verbatim>\<open>LockFailed\<close> is raised again if its text has
  \<^verbatim>\<open>Wrong nonce\<close> and logged otherwise (once per text), anything else is logged and
  raised again.
\<close>

fun lock_except ::
  "string \<Rightarrow> int option \<Rightarrow> attempt \<Rightarrow> string option \<Rightarrow> log \<Rightarrow> exn \<Rightarrow> 'a step \<times> log" where
  "lock_except lockname deadline a last_warning lg (OSError (TimeoutError m)) =
     lock_not_locked lockname deadline a last_warning (lg @ [LogInfo m])"
| "lock_except lockname deadline a last_warning lg (LockFailed message) =
     (if str_contains ''Wrong nonce'' message then (Done (Raise (LockFailed message)), lg)
      else if Some message \<noteq> last_warning
      then lock_not_locked lockname deadline a (Some message) (lg @ [LogInfo message])
      else lock_not_locked lockname deadline a last_warning lg)"
| "lock_except lockname deadline a last_warning lg e =
     (Done (Raise e), lg @ [LogTraceback e])"

definition lock_iteration ::
  "string \<Rightarrow> int \<Rightarrow> bool \<Rightarrow> int option \<Rightarrow> attempt \<Rightarrow> string option \<Rightarrow> log \<Rightarrow>
   (bool \<times> pyval \<times> int) step \<times> log" where
  "lock_iteration lockname pid server_required deadline a last_warning lg =
     (case try_to_lock lockname pid server_required a lg of
        (Inl e, lg1) \<Rightarrow> lock_except lockname deadline a last_warning lg1 e
      | (Inr (is_locked, nonce), lg1) \<Rightarrow>
          if \<not> is_locked then lock_not_locked lockname deadline a last_warning lg1
          else (Done (Return (is_locked, nonce, pid)), lg1))"

text \<open>
  The loop \<^verbatim>\<open>while not is_locked\<close>. The fuel bounds the number of passes; \<open>None\<close>
  says that the loop is still running when the fuel is used up.
\<close>

fun lock_loop ::
  "nat \<Rightarrow> string \<Rightarrow> int \<Rightarrow> bool \<Rightarrow> int option \<Rightarrow> (nat \<Rightarrow> attempt) \<Rightarrow> nat \<Rightarrow>
   string option \<Rightarrow> log \<Rightarrow> ((bool \<times> pyval \<times> int) result \<times> log) option" where
  "lock_loop 0 lockname pid server_required deadline w loop_count last_warning lg = None"
| "lock_loop (Suc fuel) lockname pid server_required deadline w loop_count last_warning lg =
     (case lock_iteration lockname pid server_required deadline (w loop_count) last_warning lg of
        (Done r, lg1) \<Rightarrow> Some (r, lg1)
      | (Again last_warning1, lg1) \<Rightarrow>
          lock_loop fuel lockname pid server_required deadline w (Suc loop_count)
            last_warning1 lg1)"

definition lock ::
  "nat \<Rightarrow> string \<Rightarrow> timeout \<Rightarrow> bool \<Rightarrow> env \<Rightarrow> log \<Rightarrow>
   ((bool \<times> pyval \<times> int) result \<times> log) option" where
  "lock fuel lockname timeout server_required e lg =
     (case get_deadline timeout (now0 e) of
        Inl x \<Rightarrow> Some (Raise x, lg)
      | Inr deadline \<Rightarrow>
          lock_loop fuel lockname (getpid e) server_required deadline (attempts e) 0 None lg)"

subsection \<open>\<^verbatim>\<open>try_to_unlock\<close> and \<^verbatim>\<open>unlock\<close>\<close>

text \<open>
  The truth value of
  \<^verbatim>\<open>response[OK_KEY] and response[ACTION_KEY] == UNLOCK_ACTION and response[NONCE_KEY] == nonce\<close>.
\<close>

definition unlock_confirmed :: "response \<Rightarrow> pyval \<Rightarrow> bool result" where
  "unlock_confirmed r nonce =
     (case getitem r ''ok'' of
        Inl e \<Rightarrow> Raise e
      | Inr ok \<Rightarrow>
          if \<not> truthy ok then Return False
          else (case getitem r ''action'' of
                  Inl e \<Rightarrow> Raise e
                | Inr act \<Rightarrow>
                    if \<not> py_eq act (PyStr ''unlock'') then Return False
                    else (case getitem r ''nonce'' of
                            Inl e \<Rightarrow> Raise e
                          | Inr n \<Rightarrow> Return (py_eq n nonce))))"

text \<open>What \<^verbatim>\<open>try_to_unlock\<close> does with the evaluated response.\<close>

definition unlock_response :: "string \<Rightarrow> pyval \<Rightarrow> response \<Rightarrow> log \<Rightarrow> bool result \<times> log" where
  "unlock_response lockname nonce r lg =
     (case unlock_confirmed r nonce of
        Inl e \<Rightarrow> (Raise e, lg)
      | Inr confirmed \<Rightarrow>
          if confirmed then (Return False, lg)
          else (Raise (LockFailed (rejected_unlock_message lockname r)), lg))"

text \<open>
  One request. The result is \<^verbatim>\<open>is_locked\<close>: \<open>True\<close> at the start, and
  \<open>False\<close> once the lock counts as released.
\<close>

definition try_to_unlock ::
  "string \<Rightarrow> pyval \<Rightarrow> int \<Rightarrow> bool \<Rightarrow> attempt \<Rightarrow> log \<Rightarrow> bool result \<times> log" where
  "try_to_unlock lockname nonce pid server_required a lg =
     (case connect_to_server server_required a lg of
        (Inl e, lg1) \<Rightarrow> (Raise e, lg1)
      | (Inr connected, lg1) \<Rightarrow>
          if \<not> connected then (Return True, lg1)
          else (case sendall a of
                  Some e \<Rightarrow>
                    (case e of
                       BrokenPipeError m \<Rightarrow>
                         (Raise (LockFailed ''probably safelock server down''),
                          lg1 @ [LogWarning m])
                     | _ \<Rightarrow> (Raise (OSError e), lg1))
                | None \<Rightarrow>
                    (case recv a of
                       Inl e \<Rightarrow> (Raise (OSError e), lg1)
                     | Inr (EvalRaises e) \<Rightarrow> (Return False, lg1 @ [LogTraceback e])
                     | Inr (EvalValue r) \<Rightarrow> unlock_response lockname nonce r lg1)))"

definition unlock_timed_out :: "string \<Rightarrow> string" where
  "unlock_timed_out lockname = ''unlock timed out: '' @ lockname"

text \<open>
  The end of a pass that did not unlock:
  \<^verbatim>\<open>if deadline and now() > deadline: log.warning(...); raise LockTimeout(warning_msg)\<close>.
  \<^verbatim>\<open>unlock\<close> never assigns \<^verbatim>\<open>warning_msg\<close> and the module has no global of
  that name, so evaluating the argument of \<^verbatim>\<open>LockTimeout\<close> raises
  \<^verbatim>\<open>NameError\<close>.
\<close>

definition unlock_still_locked ::
  "string \<Rightarrow> int option \<Rightarrow> attempt \<Rightarrow> string option \<Rightarrow> log \<Rightarrow> 'a step \<times> log" where
  "unlock_still_locked lockname deadline a last_warning lg =
     (case deadline of
        None \<Rightarrow> (Again last_warning, lg)
      | Some d \<Rightarrow>
          if clock a > d
          then (Done (Raise (NameError ''warning_msg'')),
                lg @ [LogWarning (unlock_timed_out lockname)])
          else (Again last_warning, lg))"

fun unlock_except ::
  "string \<Rightarrow> int option \<Rightarrow> attempt \<Rightarrow> string option \<Rightarrow> log \<Rightarrow> exn \<Rightarrow> 'a step \<times> log" where
  "unlock_except lockname deadline a last_warning lg (OSError (TimeoutError m)) =
     unlock_still_locked lockname deadline a last_warning (lg @ [LogInfo m])"
| "unlock_except lockname deadline a last_warning lg (LockFailed message) =
     (if str_contains ''Wrong nonce'' message then (Done (Raise (LockFailed message)), lg)
      else if Some message \<noteq> last_warning
      then unlock_still_locked lockname deadline a (Some message) (lg @ [LogInfo message])
      else unlock_still_locked lockname deadline a last_warning lg)"
| "unlock_except lockname deadline a last_warning lg e =
     (Done (Raise e), lg @ [LogTraceback e])"

text \<open>One pass of \<^verbatim>\<open>while is_locked\<close>; the function returns \<^verbatim>\<open>not is_locked\<close>.\<close>

definition unlock_iteration ::
  "string \<Rightarrow> pyval \<Rightarrow> int \<Rightarrow> bool \<Rightarrow> int option \<Rightarrow> attempt \<Rightarrow> string option \<Rightarrow> log \<Rightarrow>
   bool step \<times> log" where
  "unlock_iteration lockname nonce pid server_required deadline a last_warning lg =
     (case try_to_unlock lockname nonce pid server_required a lg of
        (Inl e, lg1) \<Rightarrow> unlock_except lockname deadline a last_warning lg1 e
      | (Inr is_locked, lg1) \<Rightarrow>
          if is_locked then unlock_still_locked lockname deadline a last_warning lg1
          else (Done (Return (\<not> is_locked)), lg1))"

fun unlock_loop ::
  "nat \<Rightarrow> string \<Rightarrow> pyval \<Rightarrow> int \<Rightarrow> bool \<Rightarrow> int option \<Rightarrow> (nat \<Rightarrow> attempt) \<Rightarrow> nat \<Rightarrow>
   string option \<Rightarrow> log \<Rightarrow> (bool result \<times> log) option" where
  "unlock_loop 0 lockname nonce pid server_required deadline w n last_warning lg = None"
| "unlock_loop (Suc fuel) lockname nonce pid server_required deadline w n last_warning lg =
     (case unlock_iteration lockname nonce pid server_required deadline (w n) last_warning lg of
        (Done r, lg1) \<Rightarrow> Some (r, lg1)
      | (Again last_warning1, lg1) \<Rightarrow>
          unlock_loop fuel lockname nonce pid server_required deadline w (Suc n)
            last_warning1 lg1)"

definition unlock ::
  "nat \<Rightarrow> string \<Rightarrow> pyval \<Rightarrow> int \<Rightarrow> timeout \<Rightarrow> bool \<Rightarrow> env \<Rightarrow> log \<Rightarrow>
   (bool result \<times> log) option" where
  "unlock fuel lockname nonce pid timeout server_required e lg =
     (case get_deadline timeout (now0 e) of
        Inl x \<Rightarrow> Some (Raise x, lg)
      | Inr deadline \<Rightarrow>
          unlock_loop fuel lockname nonce pid server_required deadline (attempts e) 0 None lg)"

subsection \<open>\<^verbatim>\<open>locked\<close>\<close>

text \<open>
  One use of the context manager: what \<^verbatim>\<open>caller_id\<close> returns or raises, the world
  of the call of \<^verbatim>\<open>lock\<close>, the exception the managed block raises (\<open>None\<close>: it
  completes), and the world of the call of \<^verbatim>\<open>unlock\<close>.
\<close>

record scope =
  caller_id :: "string result"
  lock_env :: env
  body :: "exn option"
  unlock_env :: env

text \<open>The calls a use of \<^verbatim>\<open>locked\<close> makes, in order.\<close>

datatype event =
    Acquire string
  | Body
  | Release string pyval int

text \<open>
  The \<^verbatim>\<open>else\<close> branch of \<^verbatim>\<open>locked\<close>: \<^verbatim>\<open>try: yield\<close>, then
  \<^verbatim>\<open>finally: if is_locked: unlock(...)\<close>. An exception of \<^verbatim>\<open>unlock\<close> leaves
  the \<^verbatim>\<open>finally\<close> clause in place of the block's; otherwise the block's exception,
  if any, is raised again.
\<close>

definition locked_body ::
  "nat \<Rightarrow> string \<Rightarrow> timeout \<Rightarrow> bool \<Rightarrow> scope \<Rightarrow> (bool \<times> pyval \<times> int) \<Rightarrow> log \<Rightarrow>
   event list \<times> (unit result \<times> log) option" where
  "locked_body fuel lockname timeout server_required s held lg =
     (case held of (is_locked, nonce, pid) \<Rightarrow>
        if is_locked then
          (case unlock fuel lockname nonce pid timeout server_required (unlock_env s) lg of
             None \<Rightarrow> ([Body, Release lockname nonce pid], None)
           | Some (Inl x, lg1) \<Rightarrow> ([Body, Release lockname nonce pid], Some (Raise x, lg1))
           | Some (Inr u, lg1) \<Rightarrow>
               ([Body, Release lockname nonce pid],
                Some (case body s of None \<Rightarrow> Return () | Some x \<Rightarrow> Raise x, lg1)))
        else ([Body], Some (case body s of None \<Rightarrow> Return () | Some x \<Rightarrow> Raise x, lg)))"

text \<open>
  \<^verbatim>\<open>locked\<close> with the name resolved: the call of \<^verbatim>\<open>lock\<close> inside
  \<^verbatim>\<open>try\<close>, whose exception is logged by \<^verbatim>\<open>log.exception()\<close> and raised again.
\<close>

definition locked_named ::
  "nat \<Rightarrow> string \<Rightarrow> timeout \<Rightarrow> bool \<Rightarrow> scope \<Rightarrow> log \<Rightarrow>
   event list \<times> (unit result \<times> log) option" where
  "locked_named fuel lockname timeout server_required s lg =
     (case lock fuel lockname timeout server_required (lock_env s) lg of
        None \<Rightarrow> ([Acquire lockname], None)
      | Some (Inl x, lg1) \<Rightarrow> ([Acquire lockname], Some (Raise x, lg1 @ [LogException x]))
      | Some (Inr held, lg1) \<Rightarrow>
          (case locked_body fuel lockname timeout server_required s held lg1 of
             (evs, r) \<Rightarrow> (Acquire lockname # evs, r)))"

text \<open>
  \<^verbatim>\<open>if not lockname: lockname = caller_id(...)\<close>: the test holds for
  \<^verbatim>\<open>None\<close> and for the empty string.
\<close>

definition resolve_name :: "string option \<Rightarrow> scope \<Rightarrow> string result" where
  "resolve_name lockname s =
     (case lockname of
        None \<Rightarrow> caller_id s
      | Some name \<Rightarrow> if name = [] then caller_id s else Return name)"

text \<open>
  The context manager. The result is the list of calls made, and the outcome of the
  \<^verbatim>\<open>with\<close> statement unless a polling loop is still running.
\<close>

definition locked ::
  "nat \<Rightarrow> string option \<Rightarrow> timeout \<Rightarrow> bool \<Rightarrow> scope \<Rightarrow> log \<Rightarrow>
   event list \<times> (unit result \<times> log) option" where
  "locked fuel lockname timeout server_required s lg =
     (case resolve_name lockname s of
        Inl x \<Rightarrow> ([], Some (Raise x, lg @ [LogException x]))
      | Inr name \<Rightarrow> locked_named fuel name timeout server_required s lg)"

subsection \<open>Outcomes of a request that leave the loop running\<close>

text \<open>
  The outcomes of \<^verbatim>\<open>try_to_lock\<close> after which the loop in \<^verbatim>\<open>lock\<close> reaches its
  deadline check with \<^verbatim>\<open>is_locked\<close> false: a result that is not locked, a
  \<^verbatim>\<open>TimeoutError\<close>, and a \<^verbatim>\<open>LockFailed\<close> whose text has no
  \<^verbatim>\<open>Wrong nonce\<close>.
\<close>

fun failed_attempt :: "(bool \<times> pyval) result \<Rightarrow> bool" where
  "failed_attempt (Inr (is_locked, nonce)) = (\<not> is_locked)"
| "failed_attempt (Inl (OSError (TimeoutError m))) = True"
| "failed_attempt (Inl (LockFailed m)) = (\<not> str_contains ''Wrong nonce'' m)"
| "failed_attempt (Inl e) = False"


subsection \<open>Concrete servers\<close>

text \<open>A pass in which nothing listens on the port, checked at time \<open>t\<close>.\<close>

definition refused :: "int \<Rightarrow> attempt" where
  "refused t =
     \<lparr>connect = Some ConnectionRefusedError, sendall = None,
      recv = Inl (OtherOSError ''not connected''), clock = t\<rparr>"

text \<open>A pass in which the server's answer evaluates to \<open>r\<close>, checked at time \<open>t\<close>.\<close>

definition answered :: "response \<Rightarrow> int \<Rightarrow> attempt" where
  "answered r t = \<lparr>connect = None, sendall = None, recv = Inr (EvalValue r), clock = t\<rparr>"

text \<open>A pass in which the server's answer cannot be evaluated.\<close>

definition garbled :: "int \<Rightarrow> attempt" where
  "garbled t =
     \<lparr>connect = None, sendall = None,
      recv = Inr (EvalRaises (PyError ''SyntaxError'')), clock = t\<rparr>"

definition grant :: response where
  "grant =
     Dict [''ok'' \<mapsto> PyBool True, ''action'' \<mapsto> PyStr ''lock'',
           ''lockname'' \<mapsto> PyStr ''lock1'', ''nonce'' \<mapsto> PyStr ''abc123'']"

definition busy :: response where
  "busy =
     Dict [''ok'' \<mapsto> PyBool False, ''action'' \<mapsto> PyStr ''lock'',
           ''lockname'' \<mapsto> PyStr ''lock1'', ''message'' \<mapsto> PyStr ''already locked'']"

definition released :: response where
  "released =
     Dict [''ok'' \<mapsto> PyBool True, ''action'' \<mapsto> PyStr ''unlock'',
           ''lockname'' \<mapsto> PyStr ''lock1'', ''nonce'' \<mapsto> PyStr ''abc123'']"

definition released_other :: response where
  "released_other =
     Dict [''ok'' \<mapsto> PyBool True, ''action'' \<mapsto> PyStr ''unlock'',
           ''lockname'' \<mapsto> PyStr ''lock2'', ''nonce'' \<mapsto> PyStr ''abc123'']"

definition wrong_nonce :: response where
  "wrong_nonce =
     Dict [''ok'' \<mapsto> PyBool False, ''action'' \<mapsto> PyStr ''unlock'',
           ''lockname'' \<mapsto> PyStr ''lock1'', ''message'' \<mapsto> PyStr ''Wrong nonce'']"

definition not_released :: response where
  "not_released =
     Dict [''ok'' \<mapsto> PyBool False, ''action'' \<mapsto> PyStr ''unlock'',
           ''lockname'' \<mapsto> PyStr ''lock1'', ''message'' \<mapsto> PyStr ''server busy'']"

text \<open>
  A process 4242 that starts at time 0 and meets the same pass every time, the
  \<open>n\<close>-th one checked a tenth of a second (100000 microseconds) after the one before.
\<close>

definition always :: "(int \<Rightarrow> attempt) \<Rightarrow> env" where
  "always a = \<lparr>getpid = 4242, now0 = 0, attempts = (\<lambda>n. a (100000 * (int n + 1)))\<rparr>"

text \<open>
  The answer of a server on which the lock \<open>name\<close> is held by someone else: the
  request is echoed and refused, and the message says nothing of a nonce.
\<close>

definition held :: "string \<Rightarrow> response" where
  "held name =
     Dict [''ok'' \<mapsto> PyBool False, ''action'' \<mapsto> PyStr ''lock'',
           ''lockname'' \<mapsto> PyStr name, ''message'' \<mapsto> PyStr ''already locked'']"

text \<open>
  A use of \<^verbatim>\<open>locked\<close> by process 4242 whose lock request is answered by \<open>l\<close>,
  whose block raises \<^verbatim>\<open>ValueError\<close>, and whose unlock request is answered by
  \<open>u\<close>.
\<close>

definition raising_block :: "response \<Rightarrow> response \<Rightarrow> scope" where
  "raising_block l u =
     \<lparr>caller_id = Return ''app.py:10'', lock_env = always (answered l),
      body = Some (PyError ''ValueError''), unlock_env = always (answered u)\<rparr>"

section \<open>Properties\<close>

subsection \<open>What \<^verbatim>\<open>lock\<close> returns\<close>

lemma lock_not_locked_no_return:
  "lock_not_locked ln dl a lw lg \<noteq> (Done (Return v), lg1)"
  by (auto simp: lock_not_locked_def split: option.splits if_splits)

lemma lock_except_no_return:
  "lock_except ln dl a lw lg e \<noteq> (Done (Return v), lg1)"
  by (induction ln dl a lw lg e rule: lock_except.induct)
     (auto simp: lock_not_locked_no_return)

lemma connect_to_server_connected:
  "connect_to_server sr a lg = (Return True, lg1) \<Longrightarrow> connect a = None \<and> lg1 = lg"
  by (auto simp: connect_to_server_def split: option.splits if_splits)

lemma lock_response_locked:
  "lock_response ln r lg = (Return (il, nonce), lg1) \<Longrightarrow>
     il \<and> lock_granted r ln = Return True \<and> getitem r ''nonce'' = Return nonce \<and> lg1 = lg"
  by (auto simp: lock_response_def split: sum.splits if_splits)

lemma try_to_lock_locked:
  "try_to_lock ln pid sr a lg = (Return (True, nonce), lg1) \<Longrightarrow>
     connect a = None \<and> sendall a = None \<and>
     (\<exists>r. recv a = Inr (EvalValue r) \<and> lock_granted r ln = Return True \<and>
          getitem r ''nonce'' = Return nonce)"
  by (auto simp: try_to_lock_def split: prod.splits sum.splits if_splits option.splits
        oserror.splits evaluated.splits
        dest: connect_to_server_connected lock_response_locked)

lemma lock_iteration_return:
  "lock_iteration ln pid sr dl a lw lg = (Done (Return (il, nonce, p)), lg1) \<Longrightarrow>
     il \<and> p = pid \<and> try_to_lock ln pid sr a lg = (Return (True, nonce), lg1)"
  by (auto simp: lock_iteration_def lock_not_locked_no_return lock_except_no_return
        split: prod.splits sum.splits if_splits)

lemma lock_loop_return:
  "lock_loop fuel ln pid sr dl w i lw lg = Some (Return (il, nonce, p), lg1) \<Longrightarrow>
     il \<and> p = pid \<and>
     (\<exists>j r. i \<le> j \<and> j < i + fuel \<and> connect (w j) = None \<and> sendall (w j) = None \<and>
        recv (w j) = Inr (EvalValue r) \<and> lock_granted r ln = Return True \<and>
        getitem r ''nonce'' = Return nonce)"
proof (induction fuel arbitrary: i lw lg)
  case 0
  then show ?case by simp
next
  case (Suc fuel)
  obtain st lg2 where it: "lock_iteration ln pid sr dl (w i) lw lg = (st, lg2)"
    by (cases "lock_iteration ln pid sr dl (w i) lw lg")
  show ?case
  proof (cases st)
    case (Done r)
    with Suc.prems it
    have "lock_iteration ln pid sr dl (w i) lw lg = (Done (Return (il, nonce, p)), lg1)"
      by simp
    from lock_iteration_return [OF this]
    have il: "il" "p = pid" and t: "try_to_lock ln pid sr (w i) lg = (Return (True, nonce), lg1)"
      by simp_all
    from try_to_lock_locked [OF t] il show ?thesis
      by (intro conjI; (simp; fail)?) (rule exI [of _ i], auto)
  next
    case (Again lw1)
    with Suc.prems it
    have "lock_loop fuel ln pid sr dl w (Suc i) lw1 lg2 = Some (Return (il, nonce, p), lg1)"
      by simp
    from Suc.IH [OF this] obtain j r where
      "il" "p = pid" "Suc i \<le> j" "j < Suc i + fuel" "connect (w j) = None"
      "sendall (w j) = None" "recv (w j) = Inr (EvalValue r)"
      "lock_granted r ln = Return True" "getitem r ''nonce'' = Return nonce"
      by blast
    then show ?thesis
      by (intro conjI; (simp; fail)?) (rule exI [of _ j], rule exI [of _ r], simp)
  qed
qed

lemma lock_return:
  assumes "lock fuel ln timeout sr e lg = Some (Return (il, nonce, p), lg1)"
  shows "il \<and> p = getpid e \<and>
     (\<exists>j r. j < fuel \<and> connect (attempts e j) = None \<and> sendall (attempts e j) = None \<and>
        recv (attempts e j) = Inr (EvalValue r) \<and> lock_granted r ln = Return True \<and>
        getitem r ''nonce'' = Return nonce)"
proof -
  from assms obtain dl where
    "lock_loop fuel ln (getpid e) sr dl (attempts e) 0 None lg = Some (Return (il, nonce, p), lg1)"
    by (auto simp: lock_def split: sum.splits)
  from lock_loop_return [OF this] show ?thesis by simp
qed

text \<open>
  Claim C9. Whenever \<^verbatim>\<open>lock\<close> returns normally, for any lock name, timeout and
  \<^verbatim>\<open>server_required\<close>, the triple it returns has \<^verbatim>\<open>is_locked\<close> true, the
  process id of the caller, and the nonce of a response that granted the lock: some pass
  of the loop connected, sent, and received a response for which the test of
  \<^verbatim>\<open>try_to_lock\<close> is true and whose \<^verbatim>\<open>nonce\<close> entry is the nonce returned.
  So \<^verbatim>\<open>lock\<close> never returns a result that is not locked: every other outcome is an
  exception (or the loop still running).
\<close>

theorem lock_returns_only_locked:
  "lock fuel lockname timeout server_required e lg = Some (Return (is_locked, nonce, pid), lg1) \<Longrightarrow>
     is_locked \<and> pid = getpid e \<and>
     (\<exists>j r. j < fuel \<and> connect (attempts e j) = None \<and> sendall (attempts e j) = None \<and>
        recv (attempts e j) = Inr (EvalValue r) \<and> lock_granted r lockname = Return True \<and>
        getitem r ''nonce'' = Return nonce)"
  by (rule lock_return)

text \<open>The server grants the first request: \<^verbatim>\<open>lock\<close> returns the nonce and 4242.\<close>

lemma lock_grant_eval:
  "lock 1 ''lock1'' (Seconds 1) True (always (answered grant)) [] =
     Some (Return (True, PyStr ''abc123'', 4242), [])"
  by (simp add: lock_def get_deadline_def datetime_add_def datetime_max_def always_def
      answered_def grant_def lock_iteration_def try_to_lock_def connect_to_server_def
      lock_response_def lock_granted_def getitem_def)

theorem lock_returns_only_locked_witness:
  "lock 1 ''lock1'' (Seconds 1) True (always (answered grant)) [] =
     Some (Return (True, PyStr ''abc123'', 4242), []) \<and>
   getpid (always (answered grant)) = 4242 \<and>
   (\<exists>j r. j < (1::nat) \<and> connect (attempts (always (answered grant)) j) = None \<and>
      sendall (attempts (always (answered grant)) j) = None \<and>
      recv (attempts (always (answered grant)) j) = Inr (EvalValue r) \<and>
      lock_granted r ''lock1'' = Return True \<and>
      getitem r ''nonce'' = Return (PyStr ''abc123''))"
  using lock_returns_only_locked [OF lock_grant_eval] lock_grant_eval by simp

subsection \<open>The test of \<^verbatim>\<open>try_to_unlock\<close>\<close>

lemma unlock_confirmed_iff:
  "unlock_confirmed r nonce = Return True \<longleftrightarrow>
     (\<exists>ok act n. getitem r ''ok'' = Return ok \<and> truthy ok \<and>
        getitem r ''action'' = Return act \<and> py_eq act (PyStr ''unlock'') \<and>
        getitem r ''nonce'' = Return n \<and> py_eq n nonce)"
  by (auto simp: unlock_confirmed_def split: sum.splits)

lemma unlock_response_released:
  "fst (unlock_response ln nonce r lg) = Return False \<longleftrightarrow> unlock_confirmed r nonce = Return True"
  by (auto simp: unlock_response_def split: sum.splits)

lemma try_to_unlock_answered:
  "connect a = None \<Longrightarrow> sendall a = None \<Longrightarrow> recv a = Inr (EvalValue r) \<Longrightarrow>
     try_to_unlock ln nonce pid sr a lg = unlock_response ln nonce r lg"
  by (simp add: try_to_unlock_def connect_to_server_def)

lemma unlock_confirmed_ignores_lockname:
  "unlock_confirmed (Dict (d(''lockname'' := x))) nonce = unlock_confirmed (Dict d) nonce"
proof -
  have "getitem (Dict (d(''lockname'' := x))) ''ok'' = getitem (Dict d) ''ok''"
    "getitem (Dict (d(''lockname'' := x))) ''action'' = getitem (Dict d) ''action''"
    "getitem (Dict (d(''lockname'' := x))) ''nonce'' = getitem (Dict d) ''nonce''"
    by (simp_all add: getitem_def)
  then show ?thesis
    unfolding unlock_confirmed_def by (simp split: sum.splits)
qed

lemma why_ignores_lockname:
  "why (Dict (d(''lockname'' := x))) = why (Dict d)"
  by (simp add: why_def)

lemma unlock_response_ignores_lockname:
  "unlock_response ln nonce (Dict (d(''lockname'' := x))) lg = unlock_response ln nonce (Dict d) lg"
  unfolding unlock_response_def rejected_unlock_message_def
    unlock_confirmed_ignores_lockname why_ignores_lockname ..

text \<open>
  Claim C10. One unlock attempt that connected, sent its request and received a response
  that evaluates to an object counts the lock as released (\<^verbatim>\<open>try_to_unlock\<close> returns
  \<^verbatim>\<open>is_locked\<close> false) if and only if the response's \<^verbatim>\<open>ok\<close> entry is true,
  its \<^verbatim>\<open>action\<close> entry equals \<^verbatim>\<open>'unlock'\<close> and its \<^verbatim>\<open>nonce\<close> entry
  equals the nonce sent. The echoed lock name is not read: changing or deleting the
  \<^verbatim>\<open>lockname\<close> entry of the response changes nothing in what the attempt does.
\<close>

theorem try_to_unlock_success_test:
  "connect a = None \<and> sendall a = None \<and> recv a = Inr (EvalValue r) \<longrightarrow>
     (fst (try_to_unlock lockname nonce pid server_required a lg) = Return False \<longleftrightarrow>
        (\<exists>ok act n. getitem r ''ok'' = Return ok \<and> truthy ok \<and>
           getitem r ''action'' = Return act \<and> py_eq act (PyStr ''unlock'') \<and>
           getitem r ''nonce'' = Return n \<and> py_eq n nonce)) \<and>
     (\<forall>d x. r = Dict d \<longrightarrow>
        try_to_unlock lockname nonce pid server_required
          (a\<lparr>recv := Inr (EvalValue (Dict (d(''lockname'' := x))))\<rparr>) lg =
        try_to_unlock lockname nonce pid server_required a lg)"
  by (auto simp: try_to_unlock_answered unlock_response_released unlock_confirmed_iff
      unlock_response_ignores_lockname)

text \<open>
  A response that echoes \<^verbatim>\<open>lock2\<close> to a request to unlock \<^verbatim>\<open>lock1\<close>, with the
  nonce sent, is taken as the release.
\<close>

lemma released_other_eval:
  "try_to_unlock ''lock1'' (PyStr ''abc123'') 4242 True (answered released_other 100000) [] =
     (Return False, [])"
  by (simp add: try_to_unlock_def connect_to_server_def answered_def released_other_def
      unlock_response_def unlock_confirmed_def getitem_def)

theorem try_to_unlock_success_test_witness:
  "connect (answered released_other 100000) = None \<and>
   sendall (answered released_other 100000) = None \<and>
   recv (answered released_other 100000) = Inr (EvalValue released_other) \<and>
   getitem released_other ''lockname'' = Return (PyStr ''lock2'') \<and>
   fst (try_to_unlock ''lock1'' (PyStr ''abc123'') 4242 True (answered released_other 100000) [])
     = Return False \<and>
   (\<exists>ok act n. getitem released_other ''ok'' = Return ok \<and> truthy ok \<and>
      getitem released_other ''action'' = Return act \<and> py_eq act (PyStr ''unlock'') \<and>
      getitem released_other ''nonce'' = Return n \<and> py_eq n (PyStr ''abc123''))"
proof -
  have h: "connect (answered released_other 100000) = None \<and>
     sendall (answered released_other 100000) = None \<and>
     recv (answered released_other 100000) = Inr (EvalValue released_other)"
    by (simp add: answered_def)
  have g: "getitem released_other ''lockname'' = Return (PyStr ''lock2'')"
    by (simp add: getitem_def released_other_def)
  from try_to_unlock_success_test
    [of "answered released_other 100000" released_other "''lock1''" "PyStr ''abc123''" 4242 True "[]"]
    h g released_other_eval
  show ?thesis by simp
qed

subsection \<open>The deadline of \<^verbatim>\<open>lock\<close>\<close>

lemma connect_to_server_fst:
  "fst (connect_to_server sr a lg) = fst (connect_to_server sr a lg')"
  by (simp add: connect_to_server_def split: option.splits)

lemma lock_response_fst:
  "fst (lock_response ln r lg) = fst (lock_response ln r lg')"
  by (simp add: lock_response_def split: sum.splits)

lemma try_to_lock_fst:
  "fst (try_to_lock ln pid sr a lg) = fst (try_to_lock ln pid sr a lg')"
  using connect_to_server_fst [of sr a lg lg'] lock_response_fst [of ln _ _ _]
  by (cases "connect_to_server sr a lg"; cases "connect_to_server sr a lg'")
     (auto simp: try_to_lock_def split: sum.splits option.splits oserror.splits evaluated.splits)

lemma failed_iteration:
  assumes "failed_attempt (fst (try_to_lock ln pid sr a lg))"
  shows "\<exists>lw' lg'. lock_iteration ln pid sr dl a lw lg = lock_not_locked ln dl a lw' lg'"
proof (cases "try_to_lock ln pid sr a lg")
  case (Pair res lg1)
  show ?thesis
  proof (cases res)
    case (Inr v)
    with Pair assms show ?thesis
      by (cases v) (auto simp: lock_iteration_def)
  next
    case (Inl x)
    with Pair assms have f: "failed_attempt (Inl x)" by simp
    have "\<exists>lw' lg'. lock_except ln dl a lw lg1 x = lock_not_locked ln dl a lw' lg'"
      using f by (induction ln dl a lw lg1 x rule: lock_except.induct) auto
    with Pair Inl show ?thesis
      by (simp add: lock_iteration_def)
  qed
qed

lemma lock_not_locked_again:
  "(case dl of None \<Rightarrow> True | Some d \<Rightarrow> clock a \<le> d) \<Longrightarrow>
     lock_not_locked ln dl a lw lg = (Again lw, lg)"
  by (auto simp: lock_not_locked_def split: option.splits)

lemma lock_not_locked_timeout:
  "d < clock a \<Longrightarrow>
     lock_not_locked ln (Some d) a lw lg =
       (Done (Raise (LockTimeout (lock_timed_out ln))), lg @ [LogWarning (lock_timed_out ln)])"
  by (simp add: lock_not_locked_def)

lemma lock_loop_times_out:
  assumes "\<forall>j. i \<le> j \<and> j \<le> i + n \<longrightarrow> failed_attempt (fst (try_to_lock ln pid sr (w j) []))"
    and "\<forall>j. i \<le> j \<and> j < i + n \<longrightarrow> clock (w j) \<le> d"
    and "d < clock (w (i + n))"
  shows "\<exists>lg1. lock_loop (Suc n + k) ln pid sr (Some d) w i lw lg =
           Some (Raise (LockTimeout (lock_timed_out ln)), lg1)"
  using assms
proof (induction n arbitrary: i lw lg)
  case 0
  then have "failed_attempt (fst (try_to_lock ln pid sr (w i) lg))"
    using try_to_lock_fst [of ln pid sr "w i" lg "[]"] by simp
  from failed_iteration [OF this, of "Some d" lw] obtain lw' lg' where
    "lock_iteration ln pid sr (Some d) (w i) lw lg = lock_not_locked ln (Some d) (w i) lw' lg'"
    by blast
  with 0 show ?case
    by (simp add: lock_not_locked_timeout)
next
  case (Suc n)
  then have "failed_attempt (fst (try_to_lock ln pid sr (w i) lg))"
    using try_to_lock_fst [of ln pid sr "w i" lg "[]"] by simp
  from failed_iteration [OF this, of "Some d" lw] obtain lw' lg' where
    it: "lock_iteration ln pid sr (Some d) (w i) lw lg = lock_not_locked ln (Some d) (w i) lw' lg'"
    by blast
  from Suc.prems have "clock (w i) \<le> d" by simp
  then have ag: "lock_not_locked ln (Some d) (w i) lw' lg' = (Again lw', lg')"
    by (simp add: lock_not_locked_again)
  have "\<exists>lg1. lock_loop (Suc n + k) ln pid sr (Some d) w (Suc i) lw' lg' =
           Some (Raise (LockTimeout (lock_timed_out ln)), lg1)"
    using Suc.prems by (intro Suc.IH) auto
  moreover have "lock_loop (Suc (Suc n + k)) ln pid sr (Some d) w i lw lg =
      lock_loop (Suc n + k) ln pid sr (Some d) w (Suc i) lw' lg'"
    by (simp only: lock_loop.simps it ag prod.case step.case)
  ultimately show ?case by simp
qed

lemma getitem_raises:
  "getitem r k = Raise x \<Longrightarrow> x = TypeError \<or> x = KeyError k"
  by (auto simp: getitem_def split: response.splits option.splits)

lemma lock_response_no_timeout:
  "fst (lock_response ln r lg) \<noteq> Raise (LockTimeout m)"
  by (auto simp: lock_response_def lock_granted_def split: sum.splits if_splits
      dest: getitem_raises)

lemma try_to_lock_no_timeout:
  "fst (try_to_lock ln pid sr a lg) \<noteq> Raise (LockTimeout m)"
  using lock_response_no_timeout [of ln _ _ m]
  by (auto simp: try_to_lock_def connect_to_server_def
      split: sum.splits option.splits oserror.splits evaluated.splits if_splits prod.splits)

lemma lock_except_no_deadline:
  "lock_except ln None a lw lg x = (Done (Raise (LockTimeout m)), lg1) \<Longrightarrow> x = LockTimeout m"
  by (induction ln "None :: int option" a lw lg x rule: lock_except.induct)
     (auto simp: lock_not_locked_def split: if_splits)

lemma lock_iteration_no_deadline:
  "lock_iteration ln pid sr None a lw lg \<noteq> (Done (Raise (LockTimeout m)), lg1)"
proof
  assume h: "lock_iteration ln pid sr None a lw lg = (Done (Raise (LockTimeout m)), lg1)"
  obtain res lg2 where t: "try_to_lock ln pid sr a lg = (res, lg2)"
    by (cases "try_to_lock ln pid sr a lg")
  show False
  proof (cases res)
    case (Inl x)
    with h t have "x = LockTimeout m"
      by (auto simp: lock_iteration_def dest: lock_except_no_deadline)
    with Inl t try_to_lock_no_timeout [of ln pid sr a lg m]
    show False by simp
  next
    case (Inr v)
    with h t show False
      by (cases v) (auto simp: lock_iteration_def lock_not_locked_def split: if_splits)
  qed
qed

lemma lock_loop_no_deadline:
  "lock_loop fuel ln pid sr None w i lw lg \<noteq> Some (Raise (LockTimeout m), lg1)"
proof (induction fuel arbitrary: i lw lg)
  case 0
  show ?case by simp
next
  case (Suc fuel)
  obtain st lg2 where it: "lock_iteration ln pid sr None (w i) lw lg = (st, lg2)"
    by (cases "lock_iteration ln pid sr None (w i) lw lg")
  show ?case
  proof (cases st)
    case (Done r)
    with it lock_iteration_no_deadline [of ln pid sr "w i" lw lg m lg1] show ?thesis
      by auto
  next
    case (Again lw1)
    with it Suc.IH [of "Suc i" lw1 lg2] show ?thesis by simp
  qed
qed

lemma lock_loop_forever:
  assumes "\<forall>j. failed_attempt (fst (try_to_lock ln pid sr (w j) []))"
  shows "lock_loop fuel ln pid sr None w i lw lg = None"
proof (induction fuel arbitrary: i lw lg)
  case 0
  show ?case by simp
next
  case (Suc fuel)
  from assms have "failed_attempt (fst (try_to_lock ln pid sr (w i) lg))"
    using try_to_lock_fst [of ln pid sr "w i" lg "[]"] by simp
  from failed_iteration [OF this, of None lw] obtain lw' lg' where
    "lock_iteration ln pid sr None (w i) lw lg = lock_not_locked ln None (w i) lw' lg'"
    by blast
  then show ?case
    by (simp add: lock_not_locked_again Suc.IH)
qed

text \<open>
  Claim C6. When \<^verbatim>\<open>lock\<close> is called with a timeout that sets a deadline (seconds or
  a \<^verbatim>\<open>timedelta\<close>) and its attempts fail without a fatal error, the pass at whose
  deadline check \<^verbatim>\<open>now()\<close> is past the deadline raises \<^verbatim>\<open>LockTimeout\<close>: the
  call does not go on retrying. Without a timeout the call never raises
  \<^verbatim>\<open>LockTimeout\<close>, and it retries for as long as the attempts fail that way (no
  amount of fuel makes the loop end).
\<close>

theorem lock_deadline:
  "(get_deadline timeout (now0 e) = Return (Some d) \<and>
    (\<forall>j\<le>n. failed_attempt (fst (try_to_lock lockname (getpid e) server_required (attempts e j) []))) \<and>
    (\<forall>j<n. clock (attempts e j) \<le> d) \<and> d < clock (attempts e n) \<longrightarrow>
      (\<exists>lg1. lock (Suc n + k) lockname timeout server_required e lg =
         Some (Raise (LockTimeout (lock_timed_out lockname)), lg1))) \<and>
   lock fuel lockname NoTimeout server_required e lg \<noteq> Some (Raise (LockTimeout m), lg2) \<and>
   ((\<forall>j. failed_attempt (fst (try_to_lock lockname (getpid e) server_required (attempts e j) []))) \<longrightarrow>
      lock fuel lockname NoTimeout server_required e lg = None)"
proof (intro conjI impI)
  assume h: "get_deadline timeout (now0 e) = Return (Some d) \<and>
    (\<forall>j\<le>n. failed_attempt (fst (try_to_lock lockname (getpid e) server_required (attempts e j) []))) \<and>
    (\<forall>j<n. clock (attempts e j) \<le> d) \<and> d < clock (attempts e n)"
  then have "\<exists>lg1. lock_loop (Suc n + k) lockname (getpid e) server_required (Some d) (attempts e) 0 None lg =
           Some (Raise (LockTimeout (lock_timed_out lockname)), lg1)"
    by (intro lock_loop_times_out) auto
  with h show "\<exists>lg1. lock (Suc n + k) lockname timeout server_required e lg =
         Some (Raise (LockTimeout (lock_timed_out lockname)), lg1)"
    by (simp add: lock_def)
next
  show "lock fuel lockname NoTimeout server_required e lg \<noteq> Some (Raise (LockTimeout m), lg2)"
    by (simp add: lock_def get_deadline_def lock_loop_no_deadline)
next
  assume "\<forall>j. failed_attempt (fst (try_to_lock lockname (getpid e) server_required (attempts e j) []))"
  then show "lock fuel lockname NoTimeout server_required e lg = None"
    by (simp add: lock_def get_deadline_def lock_loop_forever)
qed

text \<open>
  A lock held by someone else, polled every tenth of a second with a timeout of 0.15
  seconds: the second pass raises \<^verbatim>\<open>LockTimeout\<close>.
\<close>

lemma busy_attempt:
  "fst (try_to_lock ''lock1'' 4242 True (answered busy t) []) =
     Raise (LockFailed (rejected_lock_message ''lock1'' busy))"
  by (simp add: try_to_lock_def connect_to_server_def answered_def busy_def
      lock_response_def lock_granted_def getitem_def)

lemma busy_no_nonce:
  "\<not> str_contains ''Wrong nonce'' (rejected_lock_message ''lock1'' busy)"
  by (simp add: rejected_lock_message_def why_def busy_def)

lemma busy_deadline:
  "get_deadline (Timedelta 150000) (now0 (always (answered busy))) = Return (Some 150000)"
  by (simp add: get_deadline_def datetime_add_def datetime_max_def always_def)

theorem lock_deadline_witness:
  "get_deadline (Timedelta 150000) (now0 (always (answered busy))) = Return (Some 150000) \<and>
   clock (attempts (always (answered busy)) 0) = 100000 \<and>
   clock (attempts (always (answered busy)) 1) = 200000 \<and>
   (\<exists>lg1. lock 2 ''lock1'' (Timedelta 150000) True (always (answered busy)) [] =
      Some (Raise (LockTimeout ''lock timed out: lock1''), lg1)) \<and>
   lock 3 ''lock1'' NoTimeout True (always (answered busy)) [] = None"
proof -
  have f: "\<forall>j. failed_attempt (fst (try_to_lock ''lock1'' (getpid (always (answered busy))) True
             (attempts (always (answered busy)) j) []))"
    by (simp add: always_def busy_attempt busy_no_nonce)
  have c: "clock (attempts (always (answered busy)) 0) = 100000"
    "clock (attempts (always (answered busy)) 1) = 200000"
    by (simp_all add: always_def answered_def)
  have c0: "\<forall>j<1. clock (attempts (always (answered busy)) j) \<le> 150000"
    using c by simp
  from lock_deadline [of "Timedelta 150000" "always (answered busy)" 150000 1 "''lock1''" True
      0 "[]" 3 "[]" "[]"] busy_deadline f c c0
  show ?thesis by (simp add: lock_timed_out_def numeral_2_eq_2)
qed

subsection \<open>Rejections by the server\<close>

lemma str_contains_Nil: "str_contains [] s"
  by (cases s) simp_all












subsection \<open>The calls of \<^verbatim>\<open>locked\<close>\<close>

lemma locked_body_events:
  "fst (locked_body fuel name timeout sr s (True, nonce, pid) lg) =
     [Body, Release name nonce pid]"
  by (simp add: locked_body_def split: option.splits sum.splits prod.splits)

lemma locked_acquired:
  assumes "resolve_name lockname s = Return name"
    and "lock fuel name timeout sr (lock_env s) lg = Some (Return (il, nonce, pid), lg1)"
  shows "locked fuel lockname timeout sr s lg =
     (Acquire name # fst (locked_body fuel name timeout sr s (True, nonce, pid) lg1),
      snd (locked_body fuel name timeout sr s (True, nonce, pid) lg1))"
proof -
  from lock_return [OF assms(2)] have "il" by simp
  with assms show ?thesis
    by (simp add: locked_def locked_named_def split: prod.splits)
qed






text \<open>
  A lock that is granted around a block that raises is released once; a lock request that
  raises leaves the block and the release out.
\<close>

lemma raising_block_name:
  "resolve_name (Some ''lock1'') (raising_block l u) = Return ''lock1''"
  by (simp add: resolve_name_def)

lemma raising_block_lock:
  "lock 1 ''lock1'' NoTimeout True (lock_env (raising_block grant u)) [] =
     Some (Return (True, PyStr ''abc123'', 4242), [])"
  by (simp add: raising_block_def lock_def get_deadline_def always_def
      answered_def grant_def lock_iteration_def try_to_lock_def connect_to_server_def
      lock_response_def lock_granted_def getitem_def)



subsection \<open>A release that fails after the block has raised\<close>

lemma locked_body_outcome:
  "snd (locked_body fuel name timeout sr s (True, nonce, pid) lg) =
     (case unlock fuel name nonce pid timeout sr (unlock_env s) lg of
        None \<Rightarrow> None
      | Some (Inl y, lg2) \<Rightarrow> Some (Raise y, lg2)
      | Some (Inr u, lg2) \<Rightarrow> Some (case body s of None \<Rightarrow> Return () | Some x \<Rightarrow> Raise x, lg2))"
  by (simp add: locked_body_def split: option.splits sum.splits prod.splits)

lemma raising_block_unlock_wrong_nonce:
  "unlock 1 ''lock1'' (PyStr ''abc123'') 4242 NoTimeout True
     (unlock_env (raising_block grant wrong_nonce)) [] =
   Some (Raise (LockFailed (rejected_unlock_message ''lock1'' wrong_nonce)), [])"
  by (simp add: raising_block_def unlock_def get_deadline_def always_def answered_def
      unlock_iteration_def try_to_unlock_def connect_to_server_def unlock_response_def
      unlock_confirmed_def getitem_def wrong_nonce_def rejected_unlock_message_def why_def)

lemma raising_block_unlock_released:
  "unlock 1 ''lock1'' (PyStr ''abc123'') 4242 NoTimeout True
     (unlock_env (raising_block grant released)) [] = Some (Return True, [])"
  by (simp add: raising_block_def unlock_def get_deadline_def always_def answered_def
      unlock_iteration_def try_to_unlock_def connect_to_server_def unlock_response_def
      unlock_confirmed_def getitem_def released_def)

text \<open>
  Claim C8, as amended. When the block of a use of \<^verbatim>\<open>locked\<close> raises and the
  release then raises too, the exception of the release is what propagates to the caller,
  in place of the block's, and \<^verbatim>\<open>locked\<close> adds no line to the log of
  \<^verbatim>\<open>unlock\<close>. The block's exception propagates when the release returns.
\<close>

theorem release_failure_replaces_body_exception:
  "resolve_name lockname s = Return name \<and>
   lock fuel name timeout server_required (lock_env s) lg =
     Some (Return (is_locked, nonce, pid), lga) \<and>
   body s = Some x \<longrightarrow>
     (unlock fuel name nonce pid timeout server_required (unlock_env s) lga = Some (Raise y, lgb)
        \<longrightarrow> snd (locked fuel lockname timeout server_required s lg) = Some (Raise y, lgb)) \<and>
     (unlock fuel name nonce pid timeout server_required (unlock_env s) lga = Some (Return u, lgb)
        \<longrightarrow> snd (locked fuel lockname timeout server_required s lg) = Some (Raise x, lgb))"
  by (auto simp: locked_acquired locked_body_outcome)

text \<open>
  Claim C8 as stated fails: the block raises \<^verbatim>\<open>ValueError\<close>, the server answers
  the unlock request with \<^verbatim>\<open>Wrong nonce\<close>, and the caller gets the
  \<^verbatim>\<open>LockFailed\<close> of the release, with nothing logged.
\<close>

theorem release_failure_masks_body_exception:
  "body (raising_block grant wrong_nonce) = Some (PyError ''ValueError'') \<and>
   locked 1 (Some ''lock1'') NoTimeout True (raising_block grant wrong_nonce) [] =
     ([Acquire ''lock1'', Body, Release ''lock1'' (PyStr ''abc123'') 4242],
      Some (Raise (LockFailed (rejected_unlock_message ''lock1'' wrong_nonce)), []))"
proof -
  have "locked 1 (Some ''lock1'') NoTimeout True (raising_block grant wrong_nonce) [] =
     (Acquire ''lock1'' #
        fst (locked_body 1 ''lock1'' NoTimeout True (raising_block grant wrong_nonce)
              (True, PyStr ''abc123'', 4242) []),
      snd (locked_body 1 ''lock1'' NoTimeout True (raising_block grant wrong_nonce)
              (True, PyStr ''abc123'', 4242) []))"
    by (rule locked_acquired [OF raising_block_name raising_block_lock])
  moreover have "snd (locked_body 1 ''lock1'' NoTimeout True (raising_block grant wrong_nonce)
              (True, PyStr ''abc123'', 4242) []) =
      Some (Raise (LockFailed (rejected_unlock_message ''lock1'' wrong_nonce)), [])"
    unfolding locked_body_outcome raising_block_unlock_wrong_nonce by simp
  moreover have "body (raising_block grant wrong_nonce) = Some (PyError ''ValueError'')"
    by (simp add: raising_block_def)
  ultimately show ?thesis
    by (simp only: locked_body_events)
qed

theorem release_failure_replaces_body_exception_witness:
  "body (raising_block grant wrong_nonce) = Some (PyError ''ValueError'') \<and>
   snd (locked 1 (Some ''lock1'') NoTimeout True (raising_block grant wrong_nonce) []) =
     Some (Raise (LockFailed (rejected_unlock_message ''lock1'' wrong_nonce)), []) \<and>
   snd (locked 1 (Some ''lock1'') NoTimeout True (raising_block grant released) []) =
     Some (Raise (PyError ''ValueError''), [])"
proof -
  have b: "body (raising_block grant u) = Some (PyError ''ValueError'')" for u
    by (simp add: raising_block_def)
  from release_failure_replaces_body_exception [where lockname = "Some ''lock1''"
      and name = "''lock1''" and s = "raising_block grant wrong_nonce" and fuel = 1
      and timeout = NoTimeout and server_required = True and lg = "[]" and is_locked = True
      and nonce = "PyStr ''abc123''" and pid = 4242 and lga = "[]"
      and x = "PyError ''ValueError''"
      and y = "LockFailed (rejected_unlock_message ''lock1'' wrong_nonce)" and lgb = "[]"]
    raising_block_name raising_block_lock b raising_block_unlock_wrong_nonce
  have m: "snd (locked 1 (Some ''lock1'') NoTimeout True (raising_block grant wrong_nonce) []) =
     Some (Raise (LockFailed (rejected_unlock_message ''lock1'' wrong_nonce)), [])"
    by simp
  from release_failure_replaces_body_exception [where lockname = "Some ''lock1''"
      and name = "''lock1''" and s = "raising_block grant released" and fuel = 1
      and timeout = NoTimeout and server_required = True and lg = "[]" and is_locked = True
      and nonce = "PyStr ''abc123''" and pid = 4242 and lga = "[]"
      and x = "PyError ''ValueError''" and u = True and lgb = "[]"]
    raising_block_name raising_block_lock b raising_block_unlock_released
  have r: "snd (locked 1 (Some ''lock1'') NoTimeout True (raising_block grant released) []) =
     Some (Raise (PyError ''ValueError''), [])"
    by simp
  from m r b show ?thesis by simp
qed

subsection \<open>No server listening\<close>

lemma refused_not_required:
  "try_to_lock lockname pid False (refused t) lg =
     (Return (False, PyNone), lg @ [LogWarning not_required_msg])"
  by (simp add: try_to_lock_def connect_to_server_def refused_def)

lemma refused_required:
  "try_to_lock lockname pid True (refused t) lg =
     (Raise (LockFailed no_server_msg), lg @ [LogError no_server_msg])"
  by (simp add: try_to_lock_def connect_to_server_def refused_def)

lemma no_server_msg_no_nonce:
  "\<not> str_contains ''Wrong nonce'' no_server_msg"
  by (simp add: no_server_msg_def)

lemma refused_deadline:
  "get_deadline (Timedelta 150000) (now0 (always refused)) = Return (Some 150000)"
  by (simp add: get_deadline_def datetime_add_def datetime_max_def always_def)

lemma refused_getpid: "getpid (always refused) = 4242"
  by (simp add: always_def)

lemma refused_clock:
  "clock (attempts (always refused) 0) = 100000"
  "clock (attempts (always refused) (Suc 0)) = 200000"
  by (simp_all add: always_def refused_def)

text \<open>
  Claim C1 does not hold of the code. With \<^verbatim>\<open>server_required=False\<close> and nothing
  listening, an attempt logs the warning and returns \<^verbatim>\<open>(False, None)\<close>, which the
  loop of \<^verbatim>\<open>lock\<close> takes like a lock held by someone else: without a timeout the
  call never returns, whatever the fuel, and with a timeout of 0.15 seconds it raises
  \<^verbatim>\<open>LockTimeout\<close> at the second pass. It never returns unlocked.
\<close>

theorem lock_without_server_not_required:
  "try_to_lock lockname 4242 False (refused t) lg =
     (Return (False, PyNone), lg @ [LogWarning not_required_msg]) \<and>
   lock fuel lockname NoTimeout False (always refused) lg = None \<and>
   (\<exists>lg1. lock (Suc (Suc k)) lockname (Timedelta 150000) False (always refused) lg =
      Some (Raise (LockTimeout (lock_timed_out lockname)), lg1))"
proof (intro conjI)
  show "try_to_lock lockname 4242 False (refused t) lg =
     (Return (False, PyNone), lg @ [LogWarning not_required_msg])"
    by (rule refused_not_required)
next
  have "\<forall>j. failed_attempt (fst (try_to_lock lockname 4242 False (attempts (always refused) j) []))"
    by (simp add: always_def refused_not_required)
  then have "lock_loop fuel lockname 4242 False None (attempts (always refused)) 0 None lg = None"
    by (rule lock_loop_forever)
  then show "lock fuel lockname NoTimeout False (always refused) lg = None"
    by (simp add: lock_def get_deadline_def always_def)
next
  have f: "\<forall>j. 0 \<le> j \<and> j \<le> 0 + 1 \<longrightarrow>
      failed_attempt (fst (try_to_lock lockname 4242 False (attempts (always refused) j) []))"
    by (simp add: always_def refused_not_required)
  have c: "\<forall>j. 0 \<le> j \<and> j < 0 + 1 \<longrightarrow> clock (attempts (always refused) j) \<le> 150000"
    "150000 < clock (attempts (always refused) (0 + 1))"
    using refused_clock by simp_all
  have "\<exists>lg1. lock_loop (Suc 1 + k) lockname 4242 False (Some 150000) (attempts (always refused))
          0 None lg = Some (Raise (LockTimeout (lock_timed_out lockname)), lg1)"
    by (rule lock_loop_times_out [OF f c])
  then show "\<exists>lg1. lock (Suc (Suc k)) lockname (Timedelta 150000) False (always refused) lg =
      Some (Raise (LockTimeout (lock_timed_out lockname)), lg1)"
    using refused_deadline refused_getpid by (simp add: lock_def del: lock_loop.simps)
qed

text \<open>
  Claim C2 does not hold of the code. With \<^verbatim>\<open>server_required=True\<close> and nothing
  listening, \<^verbatim>\<open>connect_to_server\<close> logs the error and raises \<^verbatim>\<open>LockFailed\<close>,
  but the loop of \<^verbatim>\<open>lock\<close> catches it, since its text has no
  \<^verbatim>\<open>Wrong nonce\<close>, and tries again: without a timeout the call never returns, and
  with a timeout of 0.15 seconds it raises \<^verbatim>\<open>LockTimeout\<close> at the second pass,
  not \<^verbatim>\<open>LockFailed\<close> at the first.
\<close>

theorem lock_without_server_required:
  "try_to_lock lockname 4242 True (refused t) lg =
     (Raise (LockFailed no_server_msg), lg @ [LogError no_server_msg]) \<and>
   lock fuel lockname NoTimeout True (always refused) lg = None \<and>
   (\<exists>lg1. lock (Suc (Suc k)) lockname (Timedelta 150000) True (always refused) lg =
      Some (Raise (LockTimeout (lock_timed_out lockname)), lg1))"
proof (intro conjI)
  show "try_to_lock lockname 4242 True (refused t) lg =
     (Raise (LockFailed no_server_msg), lg @ [LogError no_server_msg])"
    by (rule refused_required)
next
  have "\<forall>j. failed_attempt (fst (try_to_lock lockname 4242 True (attempts (always refused) j) []))"
    by (simp add: always_def refused_required no_server_msg_no_nonce)
  then have "lock_loop fuel lockname 4242 True None (attempts (always refused)) 0 None lg = None"
    by (rule lock_loop_forever)
  then show "lock fuel lockname NoTimeout True (always refused) lg = None"
    by (simp add: lock_def get_deadline_def always_def)
next
  have f: "\<forall>j. 0 \<le> j \<and> j \<le> 0 + 1 \<longrightarrow>
      failed_attempt (fst (try_to_lock lockname 4242 True (attempts (always refused) j) []))"
    by (simp add: always_def refused_required no_server_msg_no_nonce)
  have c: "\<forall>j. 0 \<le> j \<and> j < 0 + 1 \<longrightarrow> clock (attempts (always refused) j) \<le> 150000"
    "150000 < clock (attempts (always refused) (0 + 1))"
    using refused_clock by simp_all
  have "\<exists>lg1. lock_loop (Suc 1 + k) lockname 4242 True (Some 150000) (attempts (always refused))
          0 None lg = Some (Raise (LockTimeout (lock_timed_out lockname)), lg1)"
    by (rule lock_loop_times_out [OF f c])
  then show "\<exists>lg1. lock (Suc (Suc k)) lockname (Timedelta 150000) True (always refused) lg =
      Some (Raise (LockTimeout (lock_timed_out lockname)), lg1)"
    using refused_deadline refused_getpid by (simp add: lock_def del: lock_loop.simps)
qed

subsection \<open>A response that cannot be evaluated\<close>

text \<open>
  Claim C4 does not hold of the code for an unlock attempt. A response that cannot be
  evaluated is logged by both attempts and leaves \<^verbatim>\<open>is_locked\<close> false in both:
  for \<^verbatim>\<open>try_to_lock\<close> that is a failed attempt, but for \<^verbatim>\<open>try_to_unlock\<close>
  it is the value of a confirmed release, so \<^verbatim>\<open>unlock\<close> leaves its loop at that
  pass and returns \<^verbatim>\<open>True\<close>.
\<close>

theorem unparseable_response_counts_as_unlocked:
  "try_to_lock lockname pid server_required (garbled t) lg =
     (Return (False, PyNone), lg @ [LogTraceback (PyError ''SyntaxError'')]) \<and>
   try_to_unlock lockname nonce pid server_required (garbled t) lg =
     (Return False, lg @ [LogTraceback (PyError ''SyntaxError'')]) \<and>
   unlock (Suc fuel) lockname nonce pid NoTimeout server_required (always garbled) lg =
     Some (Return True, lg @ [LogTraceback (PyError ''SyntaxError'')])"
  by (simp add: try_to_lock_def try_to_unlock_def connect_to_server_def garbled_def
      unlock_def get_deadline_def unlock_iteration_def always_def)

subsection \<open>The deadline of \<^verbatim>\<open>unlock\<close>\<close>

lemma clock_answered: "clock (answered r t) = t"
  by (simp add: answered_def)

lemma not_released_attempt:
  "try_to_unlock ''lock1'' nonce pid server_required (answered not_released t) lg =
     (Raise (LockFailed (rejected_unlock_message ''lock1'' not_released)), lg)"
  by (simp add: try_to_unlock_def connect_to_server_def answered_def unlock_response_def
      unlock_confirmed_def getitem_def not_released_def)

lemma not_released_no_nonce:
  "\<not> str_contains ''Wrong nonce'' (rejected_unlock_message ''lock1'' not_released)"
  by (simp add: rejected_unlock_message_def why_def not_released_def)

lemma not_released_iteration:
  "unlock_iteration ''lock1'' nonce pid server_required (Some 150000)
     (answered not_released t) last_warning lg =
   (unlock_still_locked ''lock1'' (Some 150000) (answered not_released t)
     (Some (rejected_unlock_message ''lock1'' not_released))
     (if last_warning = Some (rejected_unlock_message ''lock1'' not_released) then lg
      else lg @ [LogInfo (rejected_unlock_message ''lock1'' not_released)])
    :: bool step \<times> log)"
  by (auto simp: unlock_iteration_def not_released_attempt not_released_no_nonce)

text \<open>
  Claim C7 does not hold of the code. When the server keeps rejecting the unlock request
  and the deadline of 0.15 seconds has passed at the second pass, \<^verbatim>\<open>unlock\<close> logs
  the timeout and then raises \<^verbatim>\<open>NameError\<close> for the undefined
  \<^verbatim>\<open>warning_msg\<close>, not \<^verbatim>\<open>LockTimeout\<close>.
\<close>

theorem unlock_timeout_raises_name_error:
  "unlock (Suc (Suc fuel)) ''lock1'' nonce pid (Timedelta 150000) server_required
     (always (answered not_released)) [] =
   Some (Raise (NameError ''warning_msg''),
     [LogInfo (rejected_unlock_message ''lock1'' not_released),
      LogWarning (unlock_timed_out ''lock1'')])"
  by (simp add: unlock_def get_deadline_def datetime_add_def datetime_max_def always_def
      not_released_iteration unlock_still_locked_def clock_answered)

end
